theory Spec2Isabelle
  imports Main
begin

section \<open>Strings\<close>

text \<open>
  Go strings are byte sequences; a \<^typ>\<open>string\<close> is a list of 8-bit characters, so one
  \<^typ>\<open>char\<close> is one byte of the Go string.
\<close>

text \<open>\<^verbatim>\<open>strings.HasPrefix(s, p)\<close>.\<close>

fun hasPrefix :: "string \<Rightarrow> string \<Rightarrow> bool" where
  "hasPrefix s [] = True"
| "hasPrefix [] (p # ps) = False"
| "hasPrefix (c # cs) (p # ps) = (c = p \<and> hasPrefix cs ps)"

text \<open>\<^verbatim>\<open>strings.Contains(s, sub)\<close>: \<open>sub\<close> starts at some position of \<open>s\<close>.\<close>

fun containsStr :: "string \<Rightarrow> string \<Rightarrow> bool" where
  "containsStr [] sub = (sub = [])"
| "containsStr (c # cs) sub = (hasPrefix (c # cs) sub \<or> containsStr cs sub)"

text \<open>\<^verbatim>\<open>strings.Split(s, "\n")\<close>: the pieces between line feeds; an empty string gives one empty piece.\<close>

fun splitLines :: "string \<Rightarrow> string list" where
  "splitLines [] = [[]]"
| "splitLines (c # cs) =
     (if c = CHR 0x0A then [] # splitLines cs
      else (c # hd (splitLines cs)) # tl (splitLines cs))"

text \<open>
  \<^verbatim>\<open>strings.TrimSpace\<close> removes leading and trailing white space as \<^verbatim>\<open>unicode.IsSpace\<close> defines it,
  on the UTF-8 decoding of the string. The white-space code points and their UTF-8 encodings:
  the ASCII characters tab, line feed, vertical tab, form feed, carriage return and space;
  U+0085 and U+00A0 (two bytes); U+1680, U+2000 to U+200A, U+2028, U+2029, U+202F, U+205F and
  U+3000 (three bytes). A byte that starts no valid encoding decodes to U+FFFD, which is no
  white space, so trimming stops there.
\<close>

definition spaceSeqs :: "string list" where
  "spaceSeqs =
     [[CHR 0x09], [CHR 0x0A], [CHR 0x0B], [CHR 0x0C], [CHR 0x0D], [CHR 0x20],
      [CHR 0xC2, CHR 0x85], [CHR 0xC2, CHR 0xA0], [CHR 0xE1, CHR 0x9A, CHR 0x80],
      [CHR 0xE2, CHR 0x80, CHR 0x80], [CHR 0xE2, CHR 0x80, CHR 0x81],
      [CHR 0xE2, CHR 0x80, CHR 0x82], [CHR 0xE2, CHR 0x80, CHR 0x83],
      [CHR 0xE2, CHR 0x80, CHR 0x84], [CHR 0xE2, CHR 0x80, CHR 0x85],
      [CHR 0xE2, CHR 0x80, CHR 0x86], [CHR 0xE2, CHR 0x80, CHR 0x87],
      [CHR 0xE2, CHR 0x80, CHR 0x88], [CHR 0xE2, CHR 0x80, CHR 0x89],
      [CHR 0xE2, CHR 0x80, CHR 0x8A], [CHR 0xE2, CHR 0x80, CHR 0xA8],
      [CHR 0xE2, CHR 0x80, CHR 0xA9], [CHR 0xE2, CHR 0x80, CHR 0xAF],
      [CHR 0xE2, CHR 0x81, CHR 0x9F], [CHR 0xE3, CHR 0x80, CHR 0x80]]"

text \<open>The width in bytes of the white-space character a string starts with, 0 when it starts with none.\<close>

definition leadingSpace :: "string \<Rightarrow> nat" where
  "leadingSpace s = (case filter (hasPrefix s) spaceSeqs of [] \<Rightarrow> 0 | w # _ \<Rightarrow> length w)"

definition trailingSpace :: "string \<Rightarrow> nat" where
  "trailingSpace s =
     (case filter (\<lambda>w. hasPrefix (rev s) (rev w)) spaceSeqs of [] \<Rightarrow> 0 | w # _ \<Rightarrow> length w)"

function trimLeft :: "string \<Rightarrow> string" where
  "trimLeft s = (if leadingSpace s = 0 then s else trimLeft (drop (leadingSpace s) s))"
  by pat_completeness auto
termination
proof (relation "measure length")
  show "wf (measure length)" by simp
next
  fix s :: string
  assume "leadingSpace s \<noteq> 0"
  moreover have "leadingSpace [] = 0"
    by (simp add: leadingSpace_def spaceSeqs_def)
  ultimately have "s \<noteq> []" by auto
  with \<open>leadingSpace s \<noteq> 0\<close> show "(drop (leadingSpace s) s, s) \<in> measure length"
    by simp
qed

function trimRight :: "string \<Rightarrow> string" where
  "trimRight s =
     (if trailingSpace s = 0 then s else trimRight (take (length s - trailingSpace s) s))"
  by pat_completeness auto
termination
proof (relation "measure length")
  show "wf (measure length)" by simp
next
  fix s :: string
  assume "trailingSpace s \<noteq> 0"
  moreover have "trailingSpace [] = 0"
    by (simp add: trailingSpace_def spaceSeqs_def)
  ultimately have "s \<noteq> []" by auto
  with \<open>trailingSpace s \<noteq> 0\<close>
  show "(take (length s - trailingSpace s) s, s) \<in> measure length"
    by simp
qed

definition trimSpace :: "string \<Rightarrow> string" where
  "trimSpace s = trimRight (trimLeft s)"

section \<open>Base64\<close>

text \<open>
  \<^verbatim>\<open>base64.StdEncoding\<close> of the Go standard library (RFC 4648, with padding): three bytes become
  four characters of the alphabet; a last group of one or two bytes is padded with \<^verbatim>\<open>=\<close>.
\<close>

definition b64Alphabet :: string where
  "b64Alphabet = ''ABCDEFGHIJKLMNOPQRSTUVWXYZabcdefghijklmnopqrstuvwxyz0123456789+/''"

definition b64Char :: "nat \<Rightarrow> char" where
  "b64Char n = b64Alphabet ! (n mod 64)"

fun indexOf :: "'a list \<Rightarrow> 'a \<Rightarrow> nat option" where
  "indexOf [] c = None"
| "indexOf (x # xs) c = (if x = c then Some 0 else map_option Suc (indexOf xs c))"

definition b64Index :: "char \<Rightarrow> nat option" where
  "b64Index c = indexOf b64Alphabet c"

text \<open>The four characters of the 24-bit value \<open>v\<close>, highest six bits first.\<close>

definition sextets :: "nat \<Rightarrow> string" where
  "sextets v = [b64Char (v div 262144), b64Char (v div 4096), b64Char (v div 64), b64Char v]"

fun encodeToString :: "string \<Rightarrow> string" where
  "encodeToString [] = []"
| "encodeToString [a] = take 2 (sextets (of_char a * 65536)) @ ''==''"
| "encodeToString [a, b] = take 3 (sextets (of_char a * 65536 + of_char b * 256)) @ ''=''"
| "encodeToString (a # b # c # rest) =
     sextets (of_char a * 65536 + of_char b * 256 + of_char c) @ encodeToString rest"

text \<open>
  Decoding one group: the 24-bit value of up to four alphabet characters (a missing one counts
  as 0), of which the first \<open>n\<close> bytes are kept. A character outside the alphabet is an error.
\<close>

definition quantum :: "char list \<Rightarrow> nat \<Rightarrow> string option" where
  "quantum cs n =
     (case those (map b64Index cs) of
        None \<Rightarrow> None
      | Some ds \<Rightarrow>
          let v = foldl (\<lambda>acc d. acc * 64 + d) 0 (ds @ replicate (4 - length ds) 0)
          in Some (take n [char_of (v div 65536), char_of (v div 256), char_of v]))"

text \<open>
  The groups of the input without its line breaks. Padding is required and allowed in the last
  group only; an incomplete last group is an error (\<^verbatim>\<open>CorruptInputError\<close>).
\<close>

fun decodeQuanta :: "string \<Rightarrow> string option" where
  "decodeQuanta [] = Some []"
| "decodeQuanta (a # b # c # d # rest) =
     (if rest = [] \<and> d = CHR ''='' then
        (if c = CHR ''='' then quantum [a, b] 1 else quantum [a, b, c] 2)
      else (case quantum [a, b, c, d] 3 of
              None \<Rightarrow> None
            | Some bs \<Rightarrow> (case decodeQuanta rest of None \<Rightarrow> None | Some r \<Rightarrow> Some (bs @ r))))"
| "decodeQuanta _ = None"

text \<open>\<^verbatim>\<open>DecodeString\<close> skips carriage returns and line feeds anywhere in its input.\<close>

definition decodeString :: "string \<Rightarrow> string option" where
  "decodeString s = decodeQuanta (filter (\<lambda>c. c \<noteq> CHR 0x0A \<and> c \<noteq> CHR 0x0D) s)"

section \<open>Configuration\<close>

record Config =
  UploadURL :: string
  ProjectURL :: string
  AutoAccess :: bool
  FilePath :: string
  SubPath :: string
  Port :: string
  UUID :: string
  NezhaServer :: string
  NezhaPort :: string
  NezhaKey :: string
  ArgoDomain :: string
  ArgoAuth :: string
  ArgoPort :: int
  CFIP :: string
  CFPort :: int
  Name :: string

text \<open>The process environment: \<^verbatim>\<open>os.LookupEnv\<close> is the lookup in a map from names to values.\<close>

type_synonym environ = "string \<rightharpoonup> string"

definition getEnv :: "environ \<Rightarrow> string \<Rightarrow> string \<Rightarrow> string" where
  "getEnv env key defaultValue = (case env key of Some v \<Rightarrow> v | None \<Rightarrow> defaultValue)"

text \<open>
  \<^verbatim>\<open>strings.ToLower(value) == "true"\<close>: no character outside ASCII has a lower case among
  the letters of \<^verbatim>\<open>true\<close>, so the comparison is decided by lowering the ASCII letters.
\<close>

definition lowerChar :: "char \<Rightarrow> char" where
  "lowerChar c =
     (if 65 \<le> (of_char c :: nat) \<and> (of_char c :: nat) \<le> 90 then char_of (of_char c + 32 :: nat) else c)"

definition getEnvAsBool :: "environ \<Rightarrow> string \<Rightarrow> bool \<Rightarrow> bool" where
  "getEnvAsBool env key defaultValue =
     (case env key of Some v \<Rightarrow> map lowerChar v = ''true'' | None \<Rightarrow> defaultValue)"

text \<open>
  \<^verbatim>\<open>strconv.Atoi\<close>: an optional sign, then one or more decimal digits; a value outside the
  range of \<^verbatim>\<open>int\<close> (64 bits) is an error.
\<close>

definition isDigit :: "char \<Rightarrow> bool" where
  "isDigit c = (48 \<le> (of_char c :: nat) \<and> (of_char c :: nat) \<le> 57)"

definition digitsValue :: "string \<Rightarrow> int" where
  "digitsValue ds = foldl (\<lambda>acc c. acc * 10 + (of_char c - 48)) 0 ds"

definition atoi :: "string \<Rightarrow> int option" where
  "atoi s =
     (let neg = (s \<noteq> [] \<and> hd s = CHR ''-'');
          ds = (if s \<noteq> [] \<and> (hd s = CHR ''-'' \<or> hd s = CHR ''+'') then tl s else s);
          v = (if neg then - digitsValue ds else digitsValue ds)
      in if ds \<noteq> [] \<and> list_all isDigit ds \<and> - (2 ^ 63) \<le> v \<and> v < 2 ^ 63 then Some v else None)"

definition getEnvAsInt :: "environ \<Rightarrow> string \<Rightarrow> int \<Rightarrow> int" where
  "getEnvAsInt env key defaultValue =
     (case env key of
        Some v \<Rightarrow> (case atoi v of Some i \<Rightarrow> i | None \<Rightarrow> defaultValue)
      | None \<Rightarrow> defaultValue)"

definition loadConfig :: "environ \<Rightarrow> Config" where
  "loadConfig env =
     \<lparr> UploadURL = getEnv env ''UPLOAD_URL'' [],
       ProjectURL = getEnv env ''PROJECT_URL'' [],
       AutoAccess = getEnvAsBool env ''AUTO_ACCESS'' False,
       FilePath = getEnv env ''FILE_PATH'' ''./tmp'',
       SubPath = getEnv env ''SUB_PATH'' ''sub'',
       Port = getEnv env ''SERVER_PORT'' (getEnv env ''PORT'' ''3000''),
       UUID = getEnv env ''UUID'' ''ba1bea2a-cbb7-41bd-9333-6531ff8a5b31'',
       NezhaServer = getEnv env ''NEZHA_SERVER'' [],
       NezhaPort = getEnv env ''NEZHA_PORT'' [],
       NezhaKey = getEnv env ''NEZHA_KEY'' [],
       ArgoDomain = getEnv env ''ARGO_DOMAIN'' [],
       ArgoAuth = getEnv env ''ARGO_AUTH'' [],
       ArgoPort = getEnvAsInt env ''ARGO_PORT'' 8001,
       CFIP = getEnv env ''CFIP'' ''linux.do'',
       CFPort = getEnvAsInt env ''CFPORT'' 443,
       Name = getEnv env ''NAME'' ''encore.app'' \<rparr>"

section \<open>Formatting integers\<close>

text \<open>The verb \<^verbatim>\<open>%d\<close> of \<^verbatim>\<open>fmt.Sprintf\<close> on an \<^verbatim>\<open>int\<close>: decimal digits, a minus sign when negative.\<close>

definition digitChar :: "nat \<Rightarrow> char" where
  "digitChar d = char_of (48 + d)"

function showNat :: "nat \<Rightarrow> string" where
  "showNat n = (if n < 10 then [digitChar n] else showNat (n div 10) @ [digitChar (n mod 10)])"
  by pat_completeness auto
termination
  by (relation "measure id") auto

definition showInt :: "int \<Rightarrow> string" where
  "showInt i = (if i < 0 then CHR ''-'' # showNat (nat (- i)) else showNat (nat i))"

section \<open>Tunnel client arguments\<close>

text \<open>
  An argument of a subprocess is a literal string or a path made by
  \<^verbatim>\<open>filepath.Join(cfg.FilePath, name)\<close>, kept as the name of the entry in the working directory.
\<close>

datatype arg = A string | WorkPath string

text \<open>
  The pattern \<^verbatim>\<open>^[A-Z0-9a-z=]{120,250}$\<close> of \<^verbatim>\<open>regexp.MatchString\<close>: anchored at both ends (Go's
  \<^verbatim>\<open>$\<close> without the multi-line flag is the end of the text), so the whole string is between 120
  and 250 characters of the class. The class holds ASCII characters only, so characters are bytes.
\<close>

definition tokenChar :: "char \<Rightarrow> bool" where
  "tokenChar c = (c \<in> set ''ABCDEFGHIJKLMNOPQRSTUVWXYZ0123456789abcdefghijklmnopqrstuvwxyz='')"

definition tokenPattern :: "string \<Rightarrow> bool" where
  "tokenPattern s = (120 \<le> length s \<and> length s \<le> 250 \<and> list_all tokenChar s)"

text \<open>The three argument lists of \<^verbatim>\<open>startServer\<close>, in the order of its branches.\<close>

definition tokenArgs :: "string \<Rightarrow> arg list" where
  "tokenArgs auth =
     [A ''tunnel'', A ''--edge-ip-version'', A ''auto'', A ''--no-autoupdate'',
      A ''--protocol'', A ''http2'', A ''run'', A ''--token'', A auth]"

definition configFileArgs :: "arg list" where
  "configFileArgs =
     [A ''tunnel'', A ''--edge-ip-version'', A ''auto'', A ''--config'',
      WorkPath ''tunnel.yml'', A ''run'']"

definition quickArgs :: "int \<Rightarrow> arg list" where
  "quickArgs port =
     [A ''tunnel'', A ''--edge-ip-version'', A ''auto'', A ''--no-autoupdate'',
      A ''--protocol'', A ''http2'', A ''--logfile'', WorkPath ''boot.log'',
      A ''--loglevel'', A ''info'', A ''--url'', A (''http://localhost:'' @ showInt port)]"

text \<open>The selection of \<^verbatim>\<open>args\<close> in \<^verbatim>\<open>startServer\<close> (the \<^verbatim>\<open>if\<close> / \<^verbatim>\<open>else if\<close> / \<^verbatim>\<open>else\<close> chain).\<close>

definition tunnelArgs :: "Config \<Rightarrow> arg list" where
  "tunnelArgs cfg =
     (if tokenPattern (ArgoAuth cfg) then tokenArgs (ArgoAuth cfg)
      else if containsStr (ArgoAuth cfg) ''TunnelSecret'' then configFileArgs
      else quickArgs (ArgoPort cfg))"

section \<open>The working directory and the outside world\<close>

text \<open>
  The file system is modelled as the working directory \<^verbatim>\<open>cfg.FilePath\<close>: a map from the name of
  an entry to the entry. \<^verbatim>\<open>filepath.Join(cfg.FilePath, name)\<close> with a one-component name addresses
  the entry \<open>name\<close>.
\<close>

datatype entry = File string | EmptyDir | NonEmptyDir

text \<open>The JSON body of a request: \<^verbatim>\<open>{"nodes": [...]}\<close>, \<^verbatim>\<open>{"subscription": [...]}\<close> or \<^verbatim>\<open>{"url": ...}\<close>.\<close>

datatype body = Nodes "string list" | Subscription "string list" | Url string

record request =
  reqUrl :: string
  reqBody :: body

text \<open>
  The state the program changes: the working directory, the HTTP requests it has issued
  (oldest first), what it has printed and what it has logged.
\<close>

record world =
  files :: "string \<rightharpoonup> entry"
  requests :: "request list"
  stdout :: "string list"
  logs :: "string list"

text \<open>A value of the \<^verbatim>\<open>vmess\<close> map handed to \<^verbatim>\<open>json.Marshal\<close>.\<close>

datatype jvalue = JStr string | JInt int

text \<open>
  What the program asks of the outside and cannot decide itself: the answer to a POST request
  (\<open>None\<close> a transport error, otherwise the status code), the outcome of the command
  \<^verbatim>\<open>curl -s https://speed.cloudflare.com/meta\<close> (\<open>Inl\<close> its error, \<open>Inr\<close> its output),
  \<^verbatim>\<open>json.Unmarshal\<close> of that output (\<open>Inl\<close> the error; otherwise, for each key, how the verb
  \<^verbatim>\<open>%s\<close> prints the value of the key), and \<^verbatim>\<open>json.Marshal\<close> of the \<^verbatim>\<open>vmess\<close> map.
\<close>

record outside =
  httpPost :: "request \<Rightarrow> nat option"
  curlMeta :: "string + string"
  unmarshalMeta :: "string \<Rightarrow> string + (string \<Rightarrow> string)"
  marshal :: "(string \<times> jvalue) list \<Rightarrow> string + string"

text \<open>\<^verbatim>\<open>os.ReadFile\<close>: the content of a regular file; an error for a directory or a missing entry.\<close>

definition readFile :: "world \<Rightarrow> string \<Rightarrow> string option" where
  "readFile w name = (case files w name of Some (File content) \<Rightarrow> Some content | _ \<Rightarrow> None)"

text \<open>
  \<^verbatim>\<open>os.WriteFile\<close>: creates the file or replaces its content; \<open>None\<close> is the error of opening a
  directory for writing.
\<close>

definition writeFile :: "world \<Rightarrow> string \<Rightarrow> string \<Rightarrow> world option" where
  "writeFile w name content =
     (case files w name of
        Some EmptyDir \<Rightarrow> None
      | Some NonEmptyDir \<Rightarrow> None
      | _ \<Rightarrow> Some (w\<lparr>files := (files w)(name \<mapsto> File content)\<rparr>))"

text \<open>
  \<^verbatim>\<open>os.Remove\<close>: removes a file or an empty directory. Its error (a missing entry, a directory
  that is not empty) is discarded by every caller, so only the new state is returned.
\<close>

definition osRemove :: "string \<Rightarrow> world \<Rightarrow> world" where
  "osRemove name w =
     (case files w name of
        Some (File content) \<Rightarrow> w\<lparr>files := (files w)(name := None)\<rparr>
      | Some EmptyDir \<Rightarrow> w\<lparr>files := (files w)(name := None)\<rparr>
      | _ \<Rightarrow> w)"

text \<open>\<^verbatim>\<open>http.Post\<close>: the request is issued and the outside answers.\<close>

definition post :: "outside \<Rightarrow> request \<Rightarrow> world \<Rightarrow> nat option \<times> world" where
  "post out req w = (httpPost out req, w\<lparr>requests := requests w @ [req]\<rparr>)"

text \<open>The errors the program returns, with the message of each.\<close>

datatype error =
  ArgoDomainTimeout \<comment> \<open>\<^verbatim>\<open>Failed to get ArgoDomain after 30 seconds\<close>\<close>
| GetIspInfo string \<comment> \<open>\<^verbatim>\<open>Failed to get ISP info: %v\<close>\<close>
| ParseIspInfo string \<comment> \<open>\<^verbatim>\<open>Failed to parse ISP info: %v\<close>\<close>
| SerializeVmess string \<comment> \<open>\<^verbatim>\<open>Failed to serialize VMESS config: %v\<close>\<close>
| SaveSubTxt \<comment> \<open>\<^verbatim>\<open>Failed to save sub.txt: %v\<close>\<close>

section \<open>Publishing to the aggregator\<close>

text \<open>
  The pattern \<^verbatim>\<open>(vless|vmess|trojan|hysteria2|tuic)://\<close> of \<^verbatim>\<open>regexp.MatchString\<close> is not anchored:
  it matches a line that contains one of the scheme names followed by \<^verbatim>\<open>://\<close> anywhere.
\<close>

definition nodeSchemes :: "string list" where
  "nodeSchemes = [''vless'', ''vmess'', ''trojan'', ''hysteria2'', ''tuic'']"

definition isNodeLine :: "string \<Rightarrow> bool" where
  "isNodeLine line = list_ex (\<lambda>scheme. containsStr line (scheme @ ''://'')) nodeSchemes"

text \<open>The loop over the lines of the decoded artifact, in \<^verbatim>\<open>deleteNodes\<close> and in \<^verbatim>\<open>uploadNodes\<close>.\<close>

definition extractNodes :: "string \<Rightarrow> string list" where
  "extractNodes decoded = map trimSpace (filter isNodeLine (splitLines decoded))"

text \<open>\<^verbatim>\<open>deleteNodes\<close>; the result \<open>None\<close> is Go's \<^verbatim>\<open>nil\<close> error.\<close>

definition deleteNodes :: "outside \<Rightarrow> Config \<Rightarrow> world \<Rightarrow> error option \<times> world" where
  "deleteNodes out cfg w =
     (if UploadURL cfg = [] then (None, w)
      else if files w ''sub.txt'' = None then (None, w)
      else (case readFile w ''sub.txt'' of
              None \<Rightarrow> (None, w)
            | Some content \<Rightarrow>
                (case decodeString content of
                   None \<Rightarrow> (None, w)
                 | Some decoded \<Rightarrow>
                     let nodes = extractNodes decoded in
                     if length nodes = 0 then (None, w)
                     else (case post out \<lparr>reqUrl = UploadURL cfg @ ''/api/delete-nodes'',
                                            reqBody = Nodes nodes\<rparr> w of
                             (None, w') \<Rightarrow> (None, w')
                           | (Some status, w') \<Rightarrow> (None, w')))))"

text \<open>\<^verbatim>\<open>uploadNodes\<close>.\<close>

definition uploadNodes :: "outside \<Rightarrow> Config \<Rightarrow> world \<Rightarrow> world" where
  "uploadNodes out cfg w =
     (if UploadURL cfg = [] \<and> ProjectURL cfg = [] then w
      else if UploadURL cfg \<noteq> [] \<and> ProjectURL cfg \<noteq> [] then
        (case post out \<lparr>reqUrl = UploadURL cfg @ ''/api/add-subscriptions'',
                        reqBody = Subscription [ProjectURL cfg @ ''/'' @ SubPath cfg]\<rparr> w of
           (Some status, w') \<Rightarrow>
             if status = 200 then w'\<lparr>logs := logs w' @ [''Subscription uploaded successfully'']\<rparr>
             else w'
         | (None, w') \<Rightarrow> w')
      else if UploadURL cfg \<noteq> [] then
        (if files w ''sub.txt'' = None then w
         else (case readFile w ''sub.txt'' of
                 None \<Rightarrow> w
               | Some content \<Rightarrow>
                   (case decodeString content of
                      None \<Rightarrow> w
                    | Some decoded \<Rightarrow>
                        let nodes = extractNodes decoded in
                        if length nodes = 0 then w
                        else (case post out \<lparr>reqUrl = UploadURL cfg @ ''/api/add-nodes'',
                                               reqBody = Nodes nodes\<rparr> w of
                                (Some status, w') \<Rightarrow>
                                  if status = 200
                                  then w'\<lparr>logs := logs w' @ [''Nodes uploaded successfully'']\<rparr>
                                  else w'
                              | (None, w') \<Rightarrow> w'))))
      else w)"

section \<open>Domain discovery\<close>

text \<open>\<open>stripPrefix p s\<close> is what follows the literal \<open>p\<close> at the start of \<open>s\<close>.\<close>

definition stripPrefix :: "string \<Rightarrow> string \<Rightarrow> string option" where
  "stripPrefix p s = (if hasPrefix s p then Some (drop (length p) s) else None)"

text \<open>
  The pattern \<^verbatim>\<open>https?://([^/]*trycloudflare\.com)/?\<close>, matched the way Go's \<^verbatim>\<open>regexp\<close> does:
  the leftmost match, and among the matches that start there the one a backtracking search
  finds first, with greedy operators taking their longer alternative first.

  The group \<^verbatim>\<open>([^/]*trycloudflare\.com)\<close>: the star first takes one more character other than
  \<^verbatim>\<open>/\<close> and the rest of the group is tried after it; only when that fails does the star stop and
  the literal has to follow here. The result is the text of the group. The final \<^verbatim>\<open>/?\<close> matches
  the empty string at least, so a match of the group is a match of the pattern.
\<close>

fun hostGroup :: "string \<Rightarrow> string option" where
  "hostGroup [] = None"
| "hostGroup (c # cs) =
     (case (if c \<noteq> CHR ''/'' then hostGroup cs else None) of
        Some cap \<Rightarrow> Some (c # cap)
      | None \<Rightarrow> if hasPrefix (c # cs) ''trycloudflare.com'' then Some ''trycloudflare.com'' else None)"

text \<open>What follows \<^verbatim>\<open>https?\<close>: the literal \<^verbatim>\<open>://\<close>, then the group.\<close>

definition afterScheme :: "string \<Rightarrow> string option" where
  "afterScheme r = (case stripPrefix ''://'' r of None \<Rightarrow> None | Some h \<Rightarrow> hostGroup h)"

text \<open>A match that starts at the start of \<open>s\<close>: \<^verbatim>\<open>http\<close>, then \<^verbatim>\<open>s?\<close> first with the \<^verbatim>\<open>s\<close> and then without.\<close>

definition matchHere :: "string \<Rightarrow> string option" where
  "matchHere s =
     (case stripPrefix ''http'' s of
        None \<Rightarrow> None
      | Some r \<Rightarrow>
          (case (case stripPrefix ''s'' r of None \<Rightarrow> None | Some t \<Rightarrow> afterScheme t) of
             Some cap \<Rightarrow> Some cap
           | None \<Rightarrow> afterScheme r))"

text \<open>
  \<^verbatim>\<open>re.FindStringSubmatch(content)\<close>: \<open>None\<close> when nothing matches (Go's \<^verbatim>\<open>nil\<close>, of length 0),
  otherwise the text of group 1, \<^verbatim>\<open>matches[1]\<close>, of the leftmost match.
\<close>

fun findStringSubmatch :: "string \<Rightarrow> string option" where
  "findStringSubmatch [] = matchHere []"
| "findStringSubmatch (c # cs) =
     (case matchHere (c # cs) of Some cap \<Rightarrow> Some cap | None \<Rightarrow> findStringSubmatch cs)"

text \<open>
  What \<^verbatim>\<open>extractDomains\<close> does to the log file, in order: a read of \<^verbatim>\<open>boot.log\<close>, or a sleep of
  so many seconds.
\<close>

datatype event = ReadLog | Sleep nat

text \<open>
  The loop \<^verbatim>\<open>for i := 0; i < 30; i++\<close>. The tunnel client writes the log file while the loop
  runs, so the file is given as what the read of each iteration returns: \<open>bootLog i\<close> is
  the content read at iteration \<open>i\<close>, or \<open>None\<close> when \<^verbatim>\<open>os.ReadFile\<close> fails (the file is not
  there yet).
\<close>

function pollBootLog :: "(nat \<Rightarrow> string option) \<Rightarrow> nat \<Rightarrow> event list \<Rightarrow> (error + string) \<times> event list" where
  "pollBootLog bootLog i trace =
     (if i < 30 then
        (case bootLog i of
           Some content \<Rightarrow>
             (case findStringSubmatch content of
                Some domain \<Rightarrow> (Inr domain, trace @ [ReadLog])
              | None \<Rightarrow> pollBootLog bootLog (i + 1) (trace @ [ReadLog, Sleep 1]))
         | None \<Rightarrow> pollBootLog bootLog (i + 1) (trace @ [ReadLog, Sleep 1]))
      else (Inl ArgoDomainTimeout, trace))"
  by pat_completeness auto
termination
  by (relation "measure (\<lambda>(bootLog, i, trace). 30 - i)") auto

text \<open>\<^verbatim>\<open>extractDomains\<close>: the domain or the error, and the reads and sleeps it made.\<close>

definition extractDomains :: "Config \<Rightarrow> (nat \<Rightarrow> string option) \<Rightarrow> (error + string) \<times> event list" where
  "extractDomains cfg bootLog =
     (if ArgoAuth cfg \<noteq> [] \<and> ArgoDomain cfg \<noteq> [] then (Inr (ArgoDomain cfg), [])
      else pollBootLog bootLog 0 [])"

section \<open>Link generation\<close>

text \<open>\<^verbatim>\<open>strings.ReplaceAll(isp, " ", "_")\<close>.\<close>

definition replaceSpaces :: "string \<Rightarrow> string" where
  "replaceSpaces s = map (\<lambda>c. if c = CHR '' '' then CHR ''_'' else c) s"

text \<open>The label \<^verbatim>\<open>isp\<close>, of the two values of the metadata as \<^verbatim>\<open>%s\<close> prints them.\<close>

definition ispLabel :: "(string \<Rightarrow> string) \<Rightarrow> string" where
  "ispLabel meta = replaceSpaces (meta ''country'' @ ''-'' @ meta ''asOrganization'')"

definition vmessMap :: "Config \<Rightarrow> string \<Rightarrow> string \<Rightarrow> (string \<times> jvalue) list" where
  "vmessMap cfg argoDomain isp =
     [(''v'', JStr ''2''),
      (''ps'', JStr (Name cfg @ ''-'' @ isp)),
      (''add'', JStr (CFIP cfg)),
      (''port'', JInt (CFPort cfg)),
      (''id'', JStr (UUID cfg)),
      (''aid'', JStr ''0''),
      (''scy'', JStr ''none''),
      (''net'', JStr ''ws''),
      (''type'', JStr ''none''),
      (''host'', JStr argoDomain),
      (''path'', JStr ''/vmess-argo?ed=2048''),
      (''tls'', JStr ''tls''),
      (''sni'', JStr argoDomain),
      (''alpn'', JStr [])]"

text \<open>The three lines of the format string of \<^verbatim>\<open>subContent\<close>, with their arguments.\<close>

definition vlessLink :: "Config \<Rightarrow> string \<Rightarrow> string \<Rightarrow> string" where
  "vlessLink cfg argoDomain isp =
     ''vless://'' @ UUID cfg @ ''@'' @ CFIP cfg @ '':'' @ showInt (CFPort cfg)
     @ ''?encryption=none&security=tls&sni='' @ argoDomain @ ''&type=ws&host='' @ argoDomain
     @ ''&path=%2Fvless-argo%3Fed%3D2048#'' @ Name cfg @ ''-'' @ isp"

definition vmessLink :: "string \<Rightarrow> string" where
  "vmessLink vmessBytes = ''vmess://'' @ encodeToString vmessBytes"

definition trojanLink :: "Config \<Rightarrow> string \<Rightarrow> string \<Rightarrow> string" where
  "trojanLink cfg argoDomain isp =
     ''trojan://'' @ UUID cfg @ ''@'' @ CFIP cfg @ '':'' @ showInt (CFPort cfg)
     @ ''?security=tls&sni='' @ argoDomain @ ''&type=ws&host='' @ argoDomain
     @ ''&path=%2Ftrojan-argo%3Fed%3D2048#'' @ Name cfg @ ''-'' @ isp"

text \<open>The whole format string: a line feed, the three lines with an empty line between, a line feed.\<close>

definition subContent :: "Config \<Rightarrow> string \<Rightarrow> string \<Rightarrow> string \<Rightarrow> string" where
  "subContent cfg argoDomain isp vmessBytes =
     [CHR 0x0A] @ vlessLink cfg argoDomain isp @ [CHR 0x0A, CHR 0x0A]
     @ vmessLink vmessBytes @ [CHR 0x0A, CHR 0x0A]
     @ trojanLink cfg argoDomain isp @ [CHR 0x0A]"

text \<open>\<^verbatim>\<open>generateLinks\<close>; the result \<open>None\<close> is Go's \<^verbatim>\<open>nil\<close> error.\<close>

definition generateLinks :: "outside \<Rightarrow> Config \<Rightarrow> string \<Rightarrow> world \<Rightarrow> error option \<times> world" where
  "generateLinks out cfg argoDomain w =
     (case curlMeta out of
        Inl err \<Rightarrow> (Some (GetIspInfo err), w)
      | Inr output \<Rightarrow>
          (case unmarshalMeta out output of
             Inl err \<Rightarrow> (Some (ParseIspInfo err), w)
           | Inr meta \<Rightarrow>
               let isp = ispLabel meta in
               (case marshal out (vmessMap cfg argoDomain isp) of
                  Inl err \<Rightarrow> (Some (SerializeVmess err), w)
                | Inr vmessBytes \<Rightarrow>
                    let encodedContent = encodeToString (subContent cfg argoDomain isp vmessBytes) in
                    (case writeFile w ''sub.txt'' encodedContent of
                       None \<Rightarrow> (Some SaveSubTxt, w)
                     | Some w1 \<Rightarrow>
                         let w2 = w1\<lparr>stdout := stdout w1 @ [[CHR 0x0A] @ encodedContent @ [CHR 0x0A, CHR 0x0A]],
                                      logs := logs w1 @ [''sub.txt saved successfully'']\<rparr>
                         in (None, uploadNodes out cfg w2)))))"

section \<open>Cleaning up and provisioning\<close>

text \<open>\<^verbatim>\<open>cleanupOldFiles\<close>, called by \<^verbatim>\<open>main\<close> on the working directory.\<close>

definition pathsToDelete :: "string list" where
  "pathsToDelete = [''web'', ''bot'', ''npm'', ''sub.txt'', ''boot.log'']"

definition cleanupOldFiles :: "world \<Rightarrow> world" where
  "cleanupOldFiles w = foldl (\<lambda>w file. osRemove file w) w pathsToDelete"

text \<open>\<^verbatim>\<open>getSystemArchitecture\<close>, of the value of \<^verbatim>\<open>runtime.GOARCH\<close>.\<close>

definition getSystemArchitecture :: "string \<Rightarrow> string" where
  "getSystemArchitecture arch =
     (if arch = ''arm'' \<or> arch = ''arm64'' \<or> arch = ''aarch64'' then ''arm'' else ''amd'')"

text \<open>\<^verbatim>\<open>getFilesForArchitecture\<close>: pairs of a file name and its URL. It loads the configuration itself.\<close>

definition getFilesForArchitecture :: "environ \<Rightarrow> string \<Rightarrow> (string \<times> string) list" where
  "getFilesForArchitecture env architecture =
     (let baseFiles =
            (if architecture = ''arm''
             then [(''web'', ''https://arm64.ssss.nyc.mn/web''), (''bot'', ''https://arm64.ssss.nyc.mn/2go'')]
             else [(''web'', ''https://amd64.ssss.nyc.mn/web''), (''bot'', ''https://amd64.ssss.nyc.mn/2go'')]);
          cfg = loadConfig env
      in if NezhaServer cfg \<noteq> [] \<and> NezhaKey cfg \<noteq> [] then
           (if NezhaPort cfg \<noteq> [] then
              (let npmUrl = (if architecture = ''arm'' then ''https://arm64.ssss.nyc.mn/agent''
                             else ''https://amd64.ssss.nyc.mn/agent'')
               in [(''npm'', npmUrl)] @ baseFiles)
            else
              (let phpUrl = (if architecture = ''arm'' then ''https://arm64.ssss.nyc.mn/v1''
                             else ''https://amd64.ssss.nyc.mn/v1'')
               in [(''php'', phpUrl)] @ baseFiles))
         else baseFiles)"

text \<open>\<^verbatim>\<open>cleanupTempFiles\<close>, after its sleep of 15 seconds; it ends by clearing the screen.\<close>

definition filesToDelete :: "string list" where
  "filesToDelete = [''boot.log'', ''config.json'', ''list.txt'', ''npm'', ''web'', ''bot'', ''php'']"

definition cleanupTempFiles :: "Config \<Rightarrow> world \<Rightarrow> world" where
  "cleanupTempFiles cfg w =
     (let w' = foldl (\<lambda>w file. osRemove file w) w filesToDelete
      in w'\<lparr>stdout := stdout w' @ [[CHR 0x1B] @ ''[H'' @ [CHR 0x1B] @ ''[2J''],
             logs := logs w' @ [''App is running'', ''Thank you for using this script, enjoy!'']\<rparr>)"

text \<open>
  The start of \<^verbatim>\<open>main\<close>, after the configuration is loaded and the working directory is made:
  \<^verbatim>\<open>deleteNodes(cfg)\<close>, whose error is discarded, then \<^verbatim>\<open>cleanupOldFiles(cfg.FilePath)\<close>. The
  rendering of the proxy configuration and the provisioning in \<^verbatim>\<open>startServices\<close> come after.
\<close>

definition mainStart :: "outside \<Rightarrow> Config \<Rightarrow> world \<Rightarrow> world" where
  "mainStart out cfg w = cleanupOldFiles (snd (deleteNodes out cfg w))"

section \<open>Properties of the string functions\<close>

lemma hasPrefix_iff: "hasPrefix s p \<longleftrightarrow> (\<exists>r. s = p @ r)"
  by (induction s p rule: hasPrefix.induct) auto

lemma hasPrefix_append: "hasPrefix (p @ r) p"
  by (simp add: hasPrefix_iff)

lemma containsStr_iff: "containsStr s sub \<longleftrightarrow> (\<exists>pre post. s = pre @ sub @ post)"
proof (induction s)
  case Nil
  then show ?case by auto
next
  case (Cons c cs)
  show ?case
  proof
    assume "containsStr (c # cs) sub"
    then consider "hasPrefix (c # cs) sub" | "containsStr cs sub" by auto
    then show "\<exists>pre post. c # cs = pre @ sub @ post"
    proof cases
      case 1
      then obtain r where "c # cs = sub @ r" by (auto simp: hasPrefix_iff)
      then have "c # cs = [] @ sub @ r" by simp
      then show ?thesis by blast
    next
      case 2
      then obtain pre post where "cs = pre @ sub @ post" using Cons.IH by auto
      then have "c # cs = (c # pre) @ sub @ post" by simp
      then show ?thesis by blast
    qed
  next
    assume "\<exists>pre post. c # cs = pre @ sub @ post"
    then obtain pre post where eq: "c # cs = pre @ sub @ post" by auto
    show "containsStr (c # cs) sub"
    proof (cases pre)
      case Nil
      then have "hasPrefix (c # cs) sub" using eq by (auto simp: hasPrefix_iff)
      then show ?thesis by simp
    next
      case (Cons p pre')
      then have "cs = pre' @ sub @ post" using eq by simp
      then have "containsStr cs sub" using Cons.IH by auto
      then show ?thesis by simp
    qed
  qed
qed

section \<open>Tunnel credential classification\<close>

lemma tokenPattern_iff:
  "tokenPattern s \<longleftrightarrow>
     120 \<le> length s \<and> length s \<le> 250
     \<and> set s \<subseteq> set ''ABCDEFGHIJKLMNOPQRSTUVWXYZ0123456789abcdefghijklmnopqrstuvwxyz=''"
  unfolding tokenPattern_def tokenChar_def list_all_iff by blast

lemma args_distinct:
  "tokenArgs a \<noteq> configFileArgs" "tokenArgs a \<noteq> quickArgs p" "configFileArgs \<noteq> quickArgs p"
  by (simp_all add: tokenArgs_def configFileArgs_def quickArgs_def)

text \<open>
  C1 (as amended). The three argument lists are pairwise different, and every credential
  selects exactly one of them: the token list when the credential is 120 to 250 characters of
  \<^verbatim>\<open>A-Z\<close>, \<^verbatim>\<open>a-z\<close>, \<^verbatim>\<open>0-9\<close> and \<^verbatim>\<open>=\<close>; the configuration-file list when it is not such a token
  and contains \<^verbatim>\<open>TunnelSecret\<close>; the quick-tunnel list in every other case.
\<close>

theorem tunnelArgs_classification:
  "(tokenPattern (ArgoAuth cfg) \<longrightarrow> tunnelArgs cfg = tokenArgs (ArgoAuth cfg))
   \<and> (\<not> tokenPattern (ArgoAuth cfg) \<and> containsStr (ArgoAuth cfg) ''TunnelSecret''
        \<longrightarrow> tunnelArgs cfg = configFileArgs)
   \<and> (\<not> tokenPattern (ArgoAuth cfg) \<and> \<not> containsStr (ArgoAuth cfg) ''TunnelSecret''
        \<longrightarrow> tunnelArgs cfg = quickArgs (ArgoPort cfg))
   \<and> (tunnelArgs cfg = tokenArgs (ArgoAuth cfg) \<longleftrightarrow>
        120 \<le> length (ArgoAuth cfg) \<and> length (ArgoAuth cfg) \<le> 250
        \<and> set (ArgoAuth cfg) \<subseteq> set ''ABCDEFGHIJKLMNOPQRSTUVWXYZ0123456789abcdefghijklmnopqrstuvwxyz='')
   \<and> (tunnelArgs cfg = configFileArgs \<longleftrightarrow>
        \<not> tokenPattern (ArgoAuth cfg) \<and> (\<exists>pre post. ArgoAuth cfg = pre @ ''TunnelSecret'' @ post))
   \<and> tokenArgs (ArgoAuth cfg) \<noteq> configFileArgs
   \<and> tokenArgs (ArgoAuth cfg) \<noteq> quickArgs (ArgoPort cfg)
   \<and> configFileArgs \<noteq> quickArgs (ArgoPort cfg)"
proof -
  have tp: "tokenPattern (ArgoAuth cfg) \<longleftrightarrow>
      120 \<le> length (ArgoAuth cfg) \<and> length (ArgoAuth cfg) \<le> 250
      \<and> set (ArgoAuth cfg) \<subseteq> set ''ABCDEFGHIJKLMNOPQRSTUVWXYZ0123456789abcdefghijklmnopqrstuvwxyz=''"
    by (rule tokenPattern_iff)
  have cs: "containsStr (ArgoAuth cfg) ''TunnelSecret'' \<longleftrightarrow>
      (\<exists>pre post. ArgoAuth cfg = pre @ ''TunnelSecret'' @ post)"
    by (rule containsStr_iff)
  show ?thesis
    unfolding tp [symmetric] cs [symmetric]
    by (simp add: tunnelArgs_def args_distinct args_distinct [symmetric])
qed

text \<open>A token of 150 characters, a structured secret and a short string, one for each list.\<close>

theorem tunnelArgs_classification_witness:
  "tunnelArgs ((loadConfig Map.empty)\<lparr>ArgoAuth := replicate 150 (CHR ''='')\<rparr>)
     = tokenArgs (replicate 150 (CHR ''=''))
   \<and> tunnelArgs ((loadConfig Map.empty)\<lparr>ArgoAuth := ''{TunnelSecret:x}''\<rparr>) = configFileArgs
   \<and> tunnelArgs ((loadConfig Map.empty)\<lparr>ArgoAuth := ''abc''\<rparr>) = quickArgs 8001"
proof -
  have t: "tokenPattern (replicate 150 (CHR ''=''))"
    by (simp add: tokenPattern_def tokenChar_def list_all_iff)
  have n1: "\<not> tokenPattern ''{TunnelSecret:x}''" and n2: "\<not> tokenPattern ''abc''"
    by (simp_all add: tokenPattern_def)
  have c: "containsStr ''{TunnelSecret:x}'' ''TunnelSecret''" by simp
  have d: "\<not> containsStr ''abc'' ''TunnelSecret''" by simp
  have p: "ArgoPort (loadConfig Map.empty) = 8001"
    by (simp add: loadConfig_def getEnvAsInt_def)
  show ?thesis
    using tunnelArgs_classification [of "(loadConfig Map.empty)\<lparr>ArgoAuth := replicate 150 (CHR ''='')\<rparr>"]
      tunnelArgs_classification [of "(loadConfig Map.empty)\<lparr>ArgoAuth := ''{TunnelSecret:x}''\<rparr>"]
      tunnelArgs_classification [of "(loadConfig Map.empty)\<lparr>ArgoAuth := ''abc''\<rparr>"]
      t n1 n2 c d p
    by simp
qed

text \<open>
  C1 as stated fails: a credential of 120 characters of the class that starts with
  \<^verbatim>\<open>TunnelSecret\<close> contains the marker and still selects the token list, not the
  configuration-file list.
\<close>

theorem tunnelArgs_marker_counterexample:
  "containsStr (''TunnelSecret'' @ replicate 108 (CHR ''a'')) ''TunnelSecret''
   \<and> tunnelArgs ((loadConfig Map.empty)\<lparr>ArgoAuth := ''TunnelSecret'' @ replicate 108 (CHR ''a'')\<rparr>)
       \<noteq> configFileArgs
   \<and> tunnelArgs ((loadConfig Map.empty)\<lparr>ArgoAuth := ''TunnelSecret'' @ replicate 108 (CHR ''a'')\<rparr>)
       = tokenArgs (''TunnelSecret'' @ replicate 108 (CHR ''a''))"
proof -
  have t: "tokenPattern (''TunnelSecret'' @ replicate 108 (CHR ''a''))"
    by (simp add: tokenPattern_def tokenChar_def list_all_iff)
  have c: "containsStr (''TunnelSecret'' @ replicate 108 (CHR ''a'')) ''TunnelSecret''"
    by (simp add: containsStr_iff) (metis append_Nil)
  show ?thesis using t c by (simp add: tunnelArgs_def args_distinct)
qed

section \<open>Properties of Base64\<close>

lemma indexOf_nth: "distinct xs \<Longrightarrow> n < length xs \<Longrightarrow> indexOf xs (xs ! n) = Some n"
proof (induction xs arbitrary: n)
  case Nil
  then show ?case by simp
next
  case (Cons x xs)
  show ?case
  proof (cases n)
    case 0
    then show ?thesis by simp
  next
    case (Suc m)
    with Cons.prems have "xs ! m \<noteq> x" "m < length xs" "distinct xs" by auto
    with Cons.IH Suc show ?thesis by simp
  qed
qed

lemma indexOf_Some_mem: "indexOf xs c = Some i \<Longrightarrow> c \<in> set xs"
  by (induction xs arbitrary: i) (auto split: if_splits)


lemma b64Alphabet_distinct: "distinct b64Alphabet"
  by (simp add: b64Alphabet_def)

lemma b64Alphabet_length: "length b64Alphabet = 64"
  by (simp add: b64Alphabet_def)

lemma b64Index_b64Char: "b64Index (b64Char n) = Some (n mod 64)"
  unfolding b64Index_def b64Char_def
  by (rule indexOf_nth) (simp_all add: b64Alphabet_distinct b64Alphabet_length)

lemma b64Char_in: "b64Char n \<in> set b64Alphabet"
  by (simp add: b64Char_def b64Alphabet_length)


lemma base64_digits:
  fixes v :: nat
  assumes "v < 16777216"
  shows "((v div 262144 mod 64 * 64 + v div 4096 mod 64) * 64 + v div 64 mod 64) * 64 + v mod 64 = v"
proof -
  have q2: "v div 4096 = v div 64 div 64" and q3: "v div 262144 = v div 64 div 64 div 64"
    by (simp_all add: div_mult2_eq [symmetric])
  have "v div 64 div 64 div 64 < 64" using assms by (simp add: div_mult2_eq [symmetric])
  then have "v div 64 div 64 div 64 mod 64 = v div 64 div 64 div 64" by simp
  then show ?thesis
    unfolding q2 q3 by (simp add: div_mult_mod_eq)
qed


lemma foldl_sextets:
  "foldl (\<lambda>acc d. acc * 64 + d) 0 ([a, b, c, d] @ replicate (4 - length [a, b, c, d]) 0)
     = ((a * 64 + b) * 64 + c) * 64 + (d::nat)"
  by simp

lemma quantum_sextets:
  assumes "v < 16777216"
  shows "quantum (sextets v) 3 = Some [char_of (v div 65536), char_of (v div 256), char_of v]"
proof -
  have "those (map b64Index (sextets v))
          = Some [v div 262144 mod 64, v div 4096 mod 64, v div 64 mod 64, v mod 64]"
    by (simp add: sextets_def b64Index_b64Char)
  then show ?thesis
    unfolding quantum_def
    by (simp only: option.case foldl_sextets base64_digits [OF assms] Let_def take_all_iff)
       simp
qed


lemma b64Char_not_pad: "b64Char n \<noteq> CHR ''=''"
proof -
  have "CHR ''='' \<notin> set b64Alphabet" by (simp add: b64Alphabet_def)
  with b64Char_in [of n] show ?thesis by metis
qed

lemma b64Char_not_newline: "b64Char n \<noteq> CHR 0x0A" "b64Char n \<noteq> CHR 0x0D"
proof -
  have "CHR 0x0A \<notin> set b64Alphabet" "CHR 0x0D \<notin> set b64Alphabet"
    by (simp_all add: b64Alphabet_def)
  with b64Char_in [of n] show "b64Char n \<noteq> CHR 0x0A" "b64Char n \<noteq> CHR 0x0D" by metis+
qed

lemma char_of_low: "char_of (k * 256 + of_char c :: nat) = c"
  by (simp add: char_of_eq_iff take_bit_eq_mod)

lemma div_low: "r < n \<Longrightarrow> (k * n + r) div n = (k::nat)"
  by simp

lemma bytes_of_val:
  fixes a b c :: char
  defines "v \<equiv> of_char a * 65536 + of_char b * 256 + (of_char c :: nat)"
  shows "v < 16777216" "char_of (v div 65536) = a" "char_of (v div 256) = b" "char_of v = c"
proof -
  have la: "of_char a < (256::nat)" and lb: "of_char b < (256::nat)" and lc: "of_char c < (256::nat)"
    by simp_all
  show "v < 16777216" using la lb lc unfolding v_def by linarith
  have r: "of_char b * 256 + of_char c < (65536::nat)" using lb lc by linarith
  have e1: "v = of_char a * 65536 + (of_char b * 256 + of_char c)" by (simp add: v_def)
  have e2: "v = (of_char a * 256 + of_char b) * 256 + of_char c" by (simp add: v_def)
  have "v div 65536 = of_char a" by (subst e1) (rule div_low [OF r])
  then show "char_of (v div 65536) = a" by simp
  have "v div 256 = of_char a * 256 + of_char b" by (subst e2) (rule div_low [OF lc])
  then show "char_of (v div 256) = b" by (simp only: char_of_low)
  show "char_of v = c" by (subst e2) (rule char_of_low)
qed

lemma encode_chars: "set (encodeToString s) \<subseteq> insert (CHR ''='') (set b64Alphabet)"
  by (induction s rule: encodeToString.induct) (auto simp: sextets_def b64Char_in)

lemma encode_no_newline: "filter (\<lambda>c. c \<noteq> CHR 0x0A \<and> c \<noteq> CHR 0x0D) (encodeToString s) = encodeToString s"
proof -
  have "CHR 0x0A \<notin> insert (CHR ''='') (set b64Alphabet)" "CHR 0x0D \<notin> insert (CHR ''='') (set b64Alphabet)"
    by (simp_all add: b64Alphabet_def)
  with encode_chars [of s] show ?thesis
    by (intro filter_True) blast
qed

lemma foldl_sextets2:
  "foldl (\<lambda>acc d. acc * 64 + d) 0 ([a, b] @ replicate (4 - length [a, b]) 0)
     = ((a * 64 + b) * 64 + 0) * 64 + (0::nat)"
  "foldl (\<lambda>acc d. acc * 64 + d) 0 ([a, b, c] @ replicate (4 - length [a, b, c]) 0)
     = ((a * 64 + b) * 64 + c) * 64 + (0::nat)"
  by (simp_all add: numeral_eq_Suc)

lemma quantum_one:
  fixes a :: char
  shows "quantum (take 2 (sextets (of_char a * 65536))) 1 = Some [a]"
proof -
  define v :: nat where "v = of_char a * 65536"
  have v: "v < 16777216" using nat_of_char_less_256 [of a] by (simp add: v_def)
  have z: "v div 64 mod 64 = 0" "v mod 64 = 0" by (simp_all add: v_def)
  have d: "v div 65536 = of_char a" by (simp add: v_def)
  have "those (map b64Index (take 2 (sextets v))) = Some [v div 262144 mod 64, v div 4096 mod 64]"
    by (simp add: sextets_def b64Index_b64Char)
  moreover have "((v div 262144 mod 64 * 64 + v div 4096 mod 64) * 64 + 0) * 64 + 0 = v"
    using base64_digits [OF v] by (simp only: z)
  ultimately have "quantum (take 2 (sextets v)) 1 = Some [char_of (v div 65536)]"
    unfolding quantum_def by (simp only: option.case foldl_sextets2 Let_def) simp
  then show ?thesis by (simp add: d v_def)
qed

lemma quantum_two:
  fixes a b :: char
  shows "quantum (take 3 (sextets (of_char a * 65536 + of_char b * 256))) 2 = Some [a, b]"
proof -
  define v :: nat where "v = of_char a * 65536 + of_char b * 256"
  have v0: "v = of_char a * 65536 + of_char b * 256 + of_char (CHR 0x00)" by (simp add: v_def)
  have v: "v < 16777216" unfolding v0 by (rule bytes_of_val)
  have z: "v mod 64 = 0" by (simp add: v_def)
  have d: "char_of (v div 65536) = a" "char_of (v div 256) = b" unfolding v0 by (rule bytes_of_val)+
  have "those (map b64Index (take 3 (sextets v)))
          = Some [v div 262144 mod 64, v div 4096 mod 64, v div 64 mod 64]"
    by (simp add: sextets_def b64Index_b64Char)
  moreover have "((v div 262144 mod 64 * 64 + v div 4096 mod 64) * 64 + v div 64 mod 64) * 64 + 0 = v"
    using base64_digits [OF v] by (simp only: z)
  ultimately have "quantum (take 3 (sextets v)) 2 = Some [char_of (v div 65536), char_of (v div 256)]"
    unfolding quantum_def by (simp only: option.case foldl_sextets2 Let_def) simp
  then show ?thesis by (simp add: d flip: v_def)
qed

lemma quantum_three:
  fixes a b c :: char
  shows "quantum (sextets (of_char a * 65536 + of_char b * 256 + of_char c)) 3 = Some [a, b, c]"
  by (simp add: quantum_sextets bytes_of_val)

lemma sextets_shape:
  obtains x y z w where "sextets v = [x, y, z, w]"
    and "x \<noteq> CHR ''=''" "y \<noteq> CHR ''=''" "z \<noteq> CHR ''=''" "w \<noteq> CHR ''=''"
  by (simp add: sextets_def b64Char_not_pad)

lemma decodeQuanta_encodeToString: "decodeQuanta (encodeToString s) = Some s"
proof (induction s rule: encodeToString.induct)
  case 1
  then show ?case by simp
next
  case (2 a)
  obtain x y z w where sx: "sextets (of_char a * 65536) = [x, y, z, w]"
    by (rule sextets_shape)
  have "decodeQuanta (encodeToString [a]) = quantum (take 2 (sextets (of_char a * 65536))) 1"
    by (simp add: sx)
  then show ?case by (simp only: quantum_one)
next
  case (3 a b)
  obtain x y z w where sx: "sextets (of_char a * 65536 + of_char b * 256) = [x, y, z, w]"
    and "z \<noteq> CHR ''=''"
    by (rule sextets_shape)
  then have "decodeQuanta (encodeToString [a, b])
      = quantum (take 3 (sextets (of_char a * 65536 + of_char b * 256))) 2"
    by (simp add: sx)
  then show ?case by (simp only: quantum_two)
next
  case (4 a b c rest)
  obtain x y z w where sx: "sextets (of_char a * 65536 + of_char b * 256 + of_char c) = [x, y, z, w]"
    and "w \<noteq> CHR ''=''"
    by (rule sextets_shape)
  have q: "quantum [x, y, z, w] 3 = Some [a, b, c]"
    using quantum_three [of a b c] by (simp only: sx)
  show ?case using 4 \<open>w \<noteq> CHR ''=''\<close> by (simp add: sx q)
qed

theorem decodeString_encodeToString: "decodeString (encodeToString s) = Some s"
  by (simp add: decodeString_def encode_no_newline decodeQuanta_encodeToString)


end
